theory Spec2Isabelle
  imports Main "HOL-Library.Sublist"
begin

section \<open>Data model\<close>

text \<open>
  The module exports one function, \<^verbatim>\<open>ensureVersion\<close>, in two variants: the simple one
  (\<^verbatim>\<open>src/ensure_version.ts\<close>, lines 79-136) and the catalog-aware one (lines 235-281).
  Both read the ambient object \<^verbatim>\<open>Deno.version\<close> and call the semantic-version library
  imported from \<^verbatim>\<open>./deps.ts\<close>.

  A JavaScript object with string values is the list of its own enumerable properties in
  enumeration order (keys pairwise distinct); \<^verbatim>\<open>obj[key]\<close> is \<open>map_of\<close>, which is
  \<open>None\<close> where JavaScript yields \<^verbatim>\<open>undefined\<close>.
\<close>

type_synonym obj = "(string \<times> string) list"

text \<open>The two error classes the module throws or lets through, each with its message.\<close>

datatype error = TypeError string | RangeError string

text \<open>
  \<^verbatim>\<open>console.warn(msg, css)\<close> and \<^verbatim>\<open>console.info(msg, css)\<close>. The output of a call of
  \<^verbatim>\<open>ensureVersion\<close> is the list of its console calls in order, each paired with the value
  of the loop variable \<^verbatim>\<open>key\<close> of the iteration that made it.
\<close>

datatype console_call = Console_warn string string | Console_info string string

type_synonym console_log = "(string \<times> console_call) list"

text \<open>
  The argument \<^verbatim>\<open>version: AtLeastOne<Version> | string\<close>, which the body also tests
  against \<^verbatim>\<open>undefined\<close>.
\<close>

datatype requirement = Undefined | RangeString string | Mapping obj

text \<open>
  The semantic-version library is a collaborator that is not part of the repository; the
  functions the module calls are parameters of the model. Each may throw, so each returns a
  sum; \<^verbatim>\<open>maxSatisfying\<close> returns \<^verbatim>\<open>null\<close> (\<open>None\<close>) when no candidate satisfies the
  range. Version numbers are non-negative integers.
\<close>

record semver =
  satisfies :: "string \<Rightarrow> string \<Rightarrow> error + bool"
  major :: "string \<Rightarrow> error + nat"
  minor :: "string \<Rightarrow> error + nat"
  patch :: "string \<Rightarrow> error + nat"
  maxSatisfying :: "string list \<Rightarrow> string \<Rightarrow> error + string option"

text \<open>
  An element of \<^verbatim>\<open>denoVersions\<close> (line 148): the \<^verbatim>\<open>{ major, minor, patch }\<close> of one
  release heading of the fetched release list. The list itself is a parameter.
\<close>

type_synonym release = "nat \<times> nat \<times> nat"

text \<open>\<^verbatim>\<open>ImportMeta\<close> (lines 140-144).\<close>

record ImportMeta =
  url :: string
  main :: bool
  resolve :: "string \<Rightarrow> string"

section \<open>String helpers of the host language\<close>

text \<open>\<^verbatim>\<open>s.split(c)\<close> for a one-character separator: never empty, \<^verbatim>\<open>''.split('.')\<close> is \<^verbatim>\<open>['']\<close>.\<close>

fun split_on :: "char \<Rightarrow> string \<Rightarrow> string list" where
  "split_on c [] = [[]]"
| "split_on c (x # xs) =
     (if x = c then [] # split_on c xs
      else (case split_on c xs of [] \<Rightarrow> [[x]] | w # ws \<Rightarrow> (x # w) # ws))"

text \<open>\<^verbatim>\<open>xs.join(sep)\<close>.\<close>

fun join :: "string \<Rightarrow> string list \<Rightarrow> string" where
  "join sep [] = []"
| "join sep [x] = x"
| "join sep (x # y # ys) = x @ sep @ join sep (y # ys)"

text \<open>The expression \<^verbatim>\<open>s.split('.').slice(0, 3).join('.')\<close> of lines 95, 253 and 254.\<close>

definition first3 :: "string \<Rightarrow> string" where
  "first3 s = join ''.'' (take 3 (split_on CHR ''.'' s))"

text \<open>A non-negative integer inside a template literal: its decimal digits.\<close>

fun string_of_nat :: "nat \<Rightarrow> string" where
  "string_of_nat n =
     (if n < 10 then [char_of (48 + n)]
      else string_of_nat (n div 10) @ [char_of (48 + n mod 10)])"

declare string_of_nat.simps [simp del]

text \<open>\<^verbatim>\<open>Boolean(x)\<close> for \<^verbatim>\<open>x: string | null\<close>: only \<^verbatim>\<open>null\<close> and the empty string are falsy.\<close>

fun Boolean :: "string option \<Rightarrow> bool" where
  "Boolean None = False"
| "Boolean (Some s) = (s \<noteq> [])"

text \<open>\<^verbatim>\<open>Object.keys(o)\<close>.\<close>

definition Object_keys :: "obj \<Rightarrow> string list" where
  "Object_keys ob = map fst ob"

section \<open>The simple variant (lines 79-136)\<close>

text \<open>
  \<^verbatim>\<open>range(min, max)\<close> (lines 134-136): \<^verbatim>\<open>new Array(max - min)\<close> throws a
  \<^verbatim>\<open>RangeError\<close> when the length is negative; otherwise the array is
  \<open>[min + 1, ..., max]\<close>. (The constructor also rejects a length above \<open>2^32 - 1\<close>; the two
  callers pass 100 and 500 for \<^verbatim>\<open>max\<close> and a natural number for \<^verbatim>\<open>min\<close>, so that the
  length never exceeds 500.)
\<close>

definition range_arr :: "nat \<Rightarrow> nat \<Rightarrow> error + nat list" where
  "range_arr mn mx =
     (if mx < mn then Inl (RangeError ''Invalid array length'')
      else Inr (map (\<lambda>i. i + mn + 1) [0..<mx - mn]))"

text \<open>\<^verbatim>\<open>maxMinor\<close> (lines 115-122).\<close>

definition maxMinor :: "semver \<Rightarrow> string \<Rightarrow> string \<Rightarrow> error + bool" where
  "maxMinor sv originVersion requiredVersion =
     (case major sv originVersion of Inl e \<Rightarrow> Inl e | Inr originMajor \<Rightarrow>
      (case minor sv originVersion of Inl e \<Rightarrow> Inl e | Inr m \<Rightarrow>
       (case range_arr m 100 of Inl e \<Rightarrow> Inl e | Inr originMinors \<Rightarrow>
        (let originVersions =
               map (\<lambda>originMinor. string_of_nat originMajor @ ''.'' @
                                   string_of_nat originMinor @ ''.0'') originMinors
         in case maxSatisfying sv originVersions requiredVersion of
              Inl e \<Rightarrow> Inl e
            | Inr r \<Rightarrow> Inr (Boolean r)))))"

text \<open>\<^verbatim>\<open>maxPatch\<close> (lines 124-132).\<close>

definition maxPatch :: "semver \<Rightarrow> string \<Rightarrow> string \<Rightarrow> error + bool" where
  "maxPatch sv originVersion requiredVersion =
     (case major sv originVersion of Inl e \<Rightarrow> Inl e | Inr originMajor \<Rightarrow>
      (case minor sv originVersion of Inl e \<Rightarrow> Inl e | Inr originMinor \<Rightarrow>
       (case patch sv originVersion of Inl e \<Rightarrow> Inl e | Inr p \<Rightarrow>
        (case range_arr p 500 of Inl e \<Rightarrow> Inl e | Inr originPatchs \<Rightarrow>
         (let originVersions =
                map (\<lambda>originPatch. string_of_nat originMajor @ ''.'' @
                                    string_of_nat originMinor @ ''.'' @
                                    string_of_nat originPatch) originPatchs
          in case maxSatisfying sv originVersions requiredVersion of
               Inl e \<Rightarrow> Inl e
             | Inr r \<Rightarrow> Inr (Boolean r))))))"

text \<open>The three template literals of lines 101, 105 and 110.\<close>

definition mismatch_simple :: "string \<Rightarrow> string \<Rightarrow> string \<Rightarrow> string \<Rightarrow> string" where
  "mismatch_simple key origin required import_meta_url =
     key @ ''@'' @ origin @ '' not match version '' @ required @
     '' required by '' @ import_meta_url"

definition minor_advice_simple :: "string \<Rightarrow> string \<Rightarrow> string \<Rightarrow> string \<Rightarrow> string" where
  "minor_advice_simple key origin required import_meta_url =
     ''%c'' @ key @ ''@'' @ origin @ '' not match maximum minor '' @ required @
     '' required by '' @ import_meta_url @ '', '' @ key @ '' minor can be upgraded''"

definition patch_advice_simple :: "string \<Rightarrow> string \<Rightarrow> string \<Rightarrow> string \<Rightarrow> string" where
  "patch_advice_simple key origin required import_meta_url =
     ''%c'' @ key @ ''@'' @ origin @ '' not match maximum patch '' @ required @
     '' required by '' @ import_meta_url @ '', '' @ key @ '' patch can be upgraded''"

text \<open>
  One iteration of the loop of lines 93-112, for the property \<open>(key, running)\<close> of
  \<^verbatim>\<open>Deno.version\<close>: either an error is thrown, or the iteration ends (by \<^verbatim>\<open>continue\<close> or
  at its last line) after the console calls it lists. In \<^verbatim>\<open>maxMinor(origin, required) && logs\<close>
  the helper is called whatever \<^verbatim>\<open>logs\<close> is.
\<close>

definition simple_iteration ::
  "semver \<Rightarrow> string \<Rightarrow> bool \<Rightarrow> obj \<Rightarrow> string \<Rightarrow> string \<Rightarrow> error + console_call list" where
  "simple_iteration sv import_meta_url logs version key running =
     (let origin = first3 running in
      case map_of version key of
        None \<Rightarrow> Inr []
      | Some required \<Rightarrow>
          (case satisfies sv origin required of
             Inl e \<Rightarrow> Inl e
           | Inr ok \<Rightarrow>
               if \<not> ok then Inl (RangeError (mismatch_simple key origin required import_meta_url))
               else (case maxMinor sv origin required of
                       Inl e \<Rightarrow> Inl e
                     | Inr mm \<Rightarrow>
                         if mm \<and> logs
                         then Inr [Console_warn
                                     (minor_advice_simple key origin required import_meta_url)
                                     ''color: yellow'']
                         else (case maxPatch sv origin required of
                                 Inl e \<Rightarrow> Inl e
                               | Inr mp \<Rightarrow>
                                   if mp \<and> logs
                                   then Inr [Console_info
                                               (patch_advice_simple key origin required
                                                  import_meta_url)
                                               ''color: grey'']
                                   else Inr []))))"

text \<open>The loop \<^verbatim>\<open>for (const _key in Deno.version)\<close>: a throw ends it.\<close>

fun simple_loop ::
  "semver \<Rightarrow> string \<Rightarrow> bool \<Rightarrow> obj \<Rightarrow> obj \<Rightarrow> console_log \<times> (error + unit)" where
  "simple_loop sv import_meta_url logs version [] = ([], Inr ())"
| "simple_loop sv import_meta_url logs version ((key, running) # rest) =
     (case simple_iteration sv import_meta_url logs version key running of
        Inl e \<Rightarrow> ([], Inl e)
      | Inr calls \<Rightarrow>
          (case simple_loop sv import_meta_url logs version rest of
             (out, r) \<Rightarrow> (map (Pair key) calls @ out, r)))"

text \<open>
  The message of line 90. It is built only when \<^verbatim>\<open>version\<close> has no own enumerable
  property, where \<^verbatim>\<open>JSON.stringify(version)\<close> is \<^verbatim>\<open>{}\<close>.
\<close>

definition empty_requirement :: "obj \<Rightarrow> string" where
  \<open>empty_requirement Deno_version =
     ''version "'' @ ''{}'' @ ''" should have at least one of these keys ['' @
     join '', '' (Object_keys Deno_version) @ '']''\<close>

text \<open>The message of line 82; \<^verbatim>\<open>version\<close> is \<^verbatim>\<open>undefined\<close> there.\<close>

definition not_a_semver :: string where
  \<open>not_a_semver = ''"version" : ['' @ ''undefined'' @ ''] is not a valid semver''\<close>

text \<open>Lines 89-112, once \<^verbatim>\<open>version\<close> is an object.\<close>

definition simple_checks ::
  "semver \<Rightarrow> string \<Rightarrow> obj \<Rightarrow> obj \<Rightarrow> bool \<Rightarrow> console_log \<times> (error + unit)" where
  "simple_checks sv import_meta_url Deno_version version logs =
     (if length (Object_keys version) = 0
      then ([], Inl (TypeError (empty_requirement Deno_version)))
      else simple_loop sv import_meta_url logs version Deno_version)"

text \<open>The default value of the parameter \<^verbatim>\<open>logs = true\<close>: an omitted argument is \<open>None\<close>.\<close>

definition logs_default :: "bool option \<Rightarrow> bool" where
  "logs_default logs_arg = (case logs_arg of None \<Rightarrow> True | Some b \<Rightarrow> b)"

text \<open>
  \<^verbatim>\<open>ensureVersion(version, logs = true)\<close> (lines 79-113). The parameters \<open>sv\<close>,
  \<open>import_meta_url\<close> and \<open>Deno_version\<close> are the ambient \<^verbatim>\<open>semver\<close>,
  \<^verbatim>\<open>import.meta.url\<close> and \<^verbatim>\<open>Deno.version\<close>.
\<close>

definition ensureVersion_simple ::
  "semver \<Rightarrow> string \<Rightarrow> obj \<Rightarrow> requirement \<Rightarrow> bool option \<Rightarrow> console_log \<times> (error + unit)" where
  "ensureVersion_simple sv import_meta_url Deno_version version logs_arg =
     (let logs = logs_default logs_arg in
      case version of
        Undefined \<Rightarrow> ([], Inl (TypeError not_a_semver))
      | RangeString s \<Rightarrow> simple_checks sv import_meta_url Deno_version [(''deno'', s)] logs
      | Mapping m \<Rightarrow> simple_checks sv import_meta_url Deno_version m logs)"

section \<open>The catalog-aware variant (lines 235-281)\<close>

text \<open>\<^verbatim>\<open>maxOriginVersion\<close> (lines 276-281); \<^verbatim>\<open>x ?? y\<close> is \<open>y\<close> when \<open>x\<close> is \<^verbatim>\<open>null\<close>.\<close>

definition maxOriginVersion :: "semver \<Rightarrow> release list \<Rightarrow> string \<Rightarrow> error + string" where
  "maxOriginVersion sv denoVersions requiredVersion =
     (let originVersions =
            map (\<lambda>(ma, mi, pa). string_of_nat ma @ ''.'' @ string_of_nat mi @ ''.'' @
                                 string_of_nat pa) denoVersions
      in case maxSatisfying sv originVersions requiredVersion of
           Inl e \<Rightarrow> Inl e
         | Inr None \<Rightarrow> Inr requiredVersion
         | Inr (Some v) \<Rightarrow> Inr v)"

text \<open>\<^verbatim>\<open>importerName\<close> (line 249).\<close>

definition importerName :: "ImportMeta option \<Rightarrow> string" where
  "importerName importer = (case importer of Some im \<Rightarrow> '' by '' @ url im | None \<Rightarrow> [])"

text \<open>The three template literals of lines 261, 266 and 271.\<close>

definition mismatch_catalog :: "string \<Rightarrow> string \<Rightarrow> string \<Rightarrow> string \<Rightarrow> string" where
  "mismatch_catalog key origin version_key importer_name =
     key @ ''@'' @ origin @ '' not match version '' @ version_key @
     '' required'' @ importer_name"

definition minor_advice_catalog ::
  "string \<Rightarrow> string \<Rightarrow> string \<Rightarrow> string \<Rightarrow> string \<Rightarrow> string" where
  "minor_advice_catalog key origin required importer_name maxOrigin =
     ''%c'' @ key @ ''@'' @ origin @ '' not match maximum minor '' @ required @
     '' required'' @ importer_name @ '', '' @ key @ '' minor can be upgraded to '' @ maxOrigin"

definition patch_advice_catalog ::
  "string \<Rightarrow> string \<Rightarrow> string \<Rightarrow> string \<Rightarrow> string \<Rightarrow> string" where
  "patch_advice_catalog key origin required importer_name maxOrigin =
     ''%c'' @ key @ ''@'' @ origin @ '' not match maximum patch '' @ required @
     '' required'' @ importer_name @ '', '' @ key @ '' patch can be upgraded to '' @ maxOrigin"

text \<open>
  One iteration of the loop of lines 251-273. The required range is cut by the same
  \<^verbatim>\<open>split('.').slice(0, 3).join('.')\<close> as the running version; the error message quotes
  \<^verbatim>\<open>version[key]\<close> as given. The keys \<^verbatim>\<open>typescript\<close> and \<^verbatim>\<open>v8\<close> leave the iteration at
  line 258, before the call of \<^verbatim>\<open>semver.satisfies\<close>.
\<close>

definition catalog_iteration ::
  "semver \<Rightarrow> release list \<Rightarrow> string \<Rightarrow> bool \<Rightarrow> obj \<Rightarrow> string \<Rightarrow> string
     \<Rightarrow> error + console_call list" where
  "catalog_iteration sv denoVersions importer_name logs version key running =
     (let origin = first3 running in
      case map_of version key of
        None \<Rightarrow> Inr []
      | Some version_key \<Rightarrow>
          (let required = first3 version_key in
           if key = ''typescript'' \<or> key = ''v8'' then Inr []
           else
             (case satisfies sv origin required of
                Inl e \<Rightarrow> Inl e
              | Inr ok \<Rightarrow>
                  if \<not> ok
                  then Inl (RangeError (mismatch_catalog key origin version_key importer_name))
                  else
                    (case maxOriginVersion sv denoVersions required of
                       Inl e \<Rightarrow> Inl e
                     | Inr maxOrigin \<Rightarrow>
                    (case minor sv maxOrigin of
                       Inl e \<Rightarrow> Inl e
                     | Inr max_minor \<Rightarrow>
                    (case minor sv origin of
                       Inl e \<Rightarrow> Inl e
                     | Inr origin_minor \<Rightarrow>
                         if max_minor \<noteq> origin_minor \<and> logs
                         then Inr [Console_warn
                                     (minor_advice_catalog key origin required importer_name
                                        maxOrigin)
                                     ''color: yellow'']
                         else
                    (case patch sv maxOrigin of
                       Inl e \<Rightarrow> Inl e
                     | Inr max_patch \<Rightarrow>
                    (case patch sv origin of
                       Inl e \<Rightarrow> Inl e
                     | Inr origin_patch \<Rightarrow>
                         if max_patch \<noteq> origin_patch \<and> logs
                         then Inr [Console_info
                                     (patch_advice_catalog key origin required importer_name
                                        maxOrigin)
                                     ''color: grey'']
                         else Inr []))))))))"

fun catalog_loop ::
  "semver \<Rightarrow> release list \<Rightarrow> string \<Rightarrow> bool \<Rightarrow> obj \<Rightarrow> obj \<Rightarrow> console_log \<times> (error + unit)" where
  "catalog_loop sv denoVersions importer_name logs version [] = ([], Inr ())"
| "catalog_loop sv denoVersions importer_name logs version ((key, running) # rest) =
     (case catalog_iteration sv denoVersions importer_name logs version key running of
        Inl e \<Rightarrow> ([], Inl e)
      | Inr calls \<Rightarrow>
          (case catalog_loop sv denoVersions importer_name logs version rest of
             (out, r) \<Rightarrow> (map (Pair key) calls @ out, r)))"

text \<open>Lines 245-273, once \<^verbatim>\<open>version\<close> is an object.\<close>

definition catalog_checks ::
  "semver \<Rightarrow> release list \<Rightarrow> obj \<Rightarrow> obj \<Rightarrow> bool \<Rightarrow> ImportMeta option
     \<Rightarrow> console_log \<times> (error + unit)" where
  "catalog_checks sv denoVersions Deno_version version logs importer =
     (if length (Object_keys version) = 0
      then ([], Inl (TypeError (empty_requirement Deno_version)))
      else catalog_loop sv denoVersions (importerName importer) logs version Deno_version)"

text \<open>\<^verbatim>\<open>ensureVersion(version, logs = true, importer?)\<close> (lines 235-274).\<close>

definition ensureVersion_catalog ::
  "semver \<Rightarrow> release list \<Rightarrow> obj \<Rightarrow> requirement \<Rightarrow> bool option \<Rightarrow> ImportMeta option
     \<Rightarrow> console_log \<times> (error + unit)" where
  "ensureVersion_catalog sv denoVersions Deno_version version logs_arg importer =
     (let logs = logs_default logs_arg in
      case version of
        Undefined \<Rightarrow> ([], Inl (TypeError not_a_semver))
      | RangeString s \<Rightarrow>
          catalog_checks sv denoVersions Deno_version [(''deno'', s)] logs importer
      | Mapping m \<Rightarrow> catalog_checks sv denoVersions Deno_version m logs importer)"

section \<open>The caller's object\<close>

text \<open>
  The argument is passed by reference. To speak about the caller's object, the store maps
  an address to the object that lives there; addresses below \<open>next_free\<close> are allocated.
  The object literal \<^verbatim>\<open>{deno: version}\<close> of lines 86 and 242 allocates a new object and
  rebinds the local variable \<^verbatim>\<open>version\<close>. No other statement of either variant writes to an
  object: \<^verbatim>\<open>Object.keys\<close>, \<^verbatim>\<open>JSON.stringify\<close> and \<^verbatim>\<open>version[key]\<close> read.
\<close>

record store =
  cells :: "nat \<Rightarrow> obj"
  next_free :: nat

datatype jsval = JUndefined | JString string | JObject nat

definition alloc :: "store \<Rightarrow> obj \<Rightarrow> nat \<times> store" where
  "alloc st ob =
     (next_free st, st\<lparr>cells := (cells st)(next_free st := ob), next_free := Suc (next_free st)\<rparr>)"

definition ensureVersion_simple_ref ::
  "semver \<Rightarrow> string \<Rightarrow> obj \<Rightarrow> store \<Rightarrow> jsval \<Rightarrow> bool option
     \<Rightarrow> store \<times> console_log \<times> (error + unit)" where
  "ensureVersion_simple_ref sv import_meta_url Deno_version st version logs_arg =
     (let logs = logs_default logs_arg in
      case version of
        JUndefined \<Rightarrow> (st, [], Inl (TypeError not_a_semver))
      | JString s \<Rightarrow>
          (case alloc st [(''deno'', s)] of
             (a, st') \<Rightarrow> (st', simple_checks sv import_meta_url Deno_version (cells st' a) logs))
      | JObject a \<Rightarrow> (st, simple_checks sv import_meta_url Deno_version (cells st a) logs))"

definition ensureVersion_catalog_ref ::
  "semver \<Rightarrow> release list \<Rightarrow> obj \<Rightarrow> store \<Rightarrow> jsval \<Rightarrow> bool option \<Rightarrow> ImportMeta option
     \<Rightarrow> store \<times> console_log \<times> (error + unit)" where
  "ensureVersion_catalog_ref sv denoVersions Deno_version st version logs_arg importer =
     (let logs = logs_default logs_arg in
      case version of
        JUndefined \<Rightarrow> (st, [], Inl (TypeError not_a_semver))
      | JString s \<Rightarrow>
          (case alloc st [(''deno'', s)] of
             (a, st') \<Rightarrow>
               (st', catalog_checks sv denoVersions Deno_version (cells st' a) logs importer))
      | JObject a \<Rightarrow>
          (st, catalog_checks sv denoVersions Deno_version (cells st a) logs importer))"

section \<open>A reference instance of the library\<close>

text \<open>
  Modelled from the spec: the semantic-version library that \<^verbatim>\<open>./deps.ts\<close> re-exports
  (\<^verbatim>\<open>std/semver\<close>, named in \<^verbatim>\<open>src/mod.ts\<close>, line 4) is not under \<^verbatim>\<open>src/\<close>. This instance
  follows section 4.2 of the specification on a fragment of the range syntax: full
  \<open>major.minor.patch\<close> versions, the comparators \<open><\<close>, \<open><=\<close>, \<open>>\<close>, \<open>>=\<close>, \<open>=\<close> before a
  full version, the bare exact version, the bare partial versions \<open>major\<close> and
  \<open>major.minor\<close> (every version within them), comparators joined by spaces, hyphen ranges
  \<open>A - B\<close> and alternatives joined by \<open>||\<close>, with spaces around \<open>-\<close> and \<open>||\<close>. Anything
  else is malformed, in particular an operator before a partial version. A malformed
  version is a \<^verbatim>\<open>TypeError\<close>. On a malformed range the instance follows the library and
  not the last sentence of section 4.2: \<^verbatim>\<open>satisfies\<close> and \<^verbatim>\<open>maxSatisfying\<close> of the library
  catch the failure of parsing the range and answer \<^verbatim>\<open>false\<close> and \<^verbatim>\<open>null\<close>, so that a
  malformed range satisfies nothing and reaches the module as a mismatch. The general
  theorems below hold for every library, whichever way it treats a malformed range; this
  instance only serves to run the module on concrete inputs.
\<close>

definition is_digit :: "char \<Rightarrow> bool" where
  "is_digit c = (48 \<le> (of_char c :: nat) \<and> (of_char c :: nat) \<le> 57)"

definition parse_number :: "string \<Rightarrow> nat option" where
  "parse_number s =
     (if s = [] then None
      else if list_ex (\<lambda>c. \<not> is_digit c) s then None
      else if 1 < length s \<and> hd s = CHR ''0'' then None
      else Some (foldl (\<lambda>n c. 10 * n + ((of_char c :: nat) - 48)) 0 s))"

definition parse_triple :: "string \<Rightarrow> release option" where
  "parse_triple s =
     (case split_on CHR ''.'' s of
        [a, b, c] \<Rightarrow>
          (case parse_number a of None \<Rightarrow> None | Some x \<Rightarrow>
           (case parse_number b of None \<Rightarrow> None | Some y \<Rightarrow>
            (case parse_number c of None \<Rightarrow> None | Some z \<Rightarrow> Some (x, y, z))))
      | _ \<Rightarrow> None)"

fun triple_less :: "release \<Rightarrow> release \<Rightarrow> bool" where
  "triple_less (a, b, c) (x, y, z) = (a < x \<or> (a = x \<and> (b < y \<or> (b = y \<and> c < z))))"

datatype cmp_op = Lt | Le | Gt | Ge | Eq

type_synonym comparator = "cmp_op \<times> release"

fun holds :: "comparator \<Rightarrow> release \<Rightarrow> bool" where
  "holds (Lt, r) t = triple_less t r"
| "holds (Le, r) t = (triple_less t r \<or> t = r)"
| "holds (Gt, r) t = triple_less r t"
| "holds (Ge, r) t = (triple_less r t \<or> t = r)"
| "holds (Eq, r) t = (t = r)"

text \<open>A bare partial version stands for every version that starts with it.\<close>

definition parse_partial :: "string \<Rightarrow> comparator list option" where
  "parse_partial s =
     (case split_on CHR ''.'' s of
        [a] \<Rightarrow>
          (case parse_number a of None \<Rightarrow> None
           | Some x \<Rightarrow> Some [(Ge, (x, 0, 0)), (Lt, (Suc x, 0, 0))])
      | [a, b] \<Rightarrow>
          (case parse_number a of None \<Rightarrow> None | Some x \<Rightarrow>
           (case parse_number b of None \<Rightarrow> None
            | Some y \<Rightarrow> Some [(Ge, (x, y, 0)), (Lt, (x, Suc y, 0))]))
      | _ \<Rightarrow> None)"

text \<open>One word of a range: the comparators that must all hold.\<close>

definition parse_comparator :: "string \<Rightarrow> comparator list option" where
  "parse_comparator s =
     (if take 2 s = ''>='' then map_option (\<lambda>t. [(Ge, t)]) (parse_triple (drop 2 s))
      else if take 2 s = ''<='' then map_option (\<lambda>t. [(Le, t)]) (parse_triple (drop 2 s))
      else if take 1 s = ''>'' then map_option (\<lambda>t. [(Gt, t)]) (parse_triple (drop 1 s))
      else if take 1 s = ''<'' then map_option (\<lambda>t. [(Lt, t)]) (parse_triple (drop 1 s))
      else if take 1 s = ''='' then map_option (\<lambda>t. [(Eq, t)]) (parse_triple (drop 1 s))
      else (case parse_triple s of Some t \<Rightarrow> Some [(Eq, t)] | None \<Rightarrow> parse_partial s))"

text \<open>The words of a range, and the word lists between the \<open>||\<close>.\<close>

definition range_words :: "string \<Rightarrow> string list" where
  "range_words s = filter (\<lambda>w. w \<noteq> []) (split_on CHR '' '' s)"

fun alternatives :: "string list \<Rightarrow> string list list" where
  "alternatives [] = [[]]"
| "alternatives (w # ws) =
     (if w = ''||'' then [] # alternatives ws
      else (case alternatives ws of [] \<Rightarrow> [[w]] | a # as \<Rightarrow> (w # a) # as))"

fun parse_alternative :: "string list \<Rightarrow> comparator list option" where
  "parse_alternative [a, h, b] =
     (if h = ''-''
      then (case parse_triple a of None \<Rightarrow> None | Some x \<Rightarrow>
            (case parse_triple b of None \<Rightarrow> None | Some y \<Rightarrow> Some [(Ge, x), (Le, y)]))
      else map_option concat (those (map parse_comparator [a, h, b])))"
| "parse_alternative ws = map_option concat (those (map parse_comparator ws))"

definition parse_range :: "string \<Rightarrow> comparator list list option" where
  "parse_range s = those (map parse_alternative (alternatives (range_words s)))"

definition test_range :: "comparator list list \<Rightarrow> release \<Rightarrow> bool" where
  "test_range alts t = list_ex (\<lambda>alt. list_all (\<lambda>c. holds c t) alt) alts"

definition invalid_version :: "string \<Rightarrow> error" where
  "invalid_version v = TypeError (''Invalid Version: '' @ v)"

definition std_satisfies :: "string \<Rightarrow> string \<Rightarrow> error + bool" where
  "std_satisfies v r =
     (case parse_range r of
        None \<Rightarrow> Inr False
      | Some alts \<Rightarrow>
          (case parse_triple v of
             None \<Rightarrow> Inl (invalid_version v)
           | Some t \<Rightarrow> Inr (test_range alts t)))"

fun max_loop ::
  "comparator list list \<Rightarrow> string list \<Rightarrow> (string \<times> release) option \<Rightarrow> error + string option" where
  "max_loop alts [] mx = Inr (map_option fst mx)"
| "max_loop alts (v # vs) mx =
     (case parse_triple v of
        None \<Rightarrow> Inl (invalid_version v)
      | Some t \<Rightarrow>
          if test_range alts t \<and> (case mx of None \<Rightarrow> True | Some (_, mt) \<Rightarrow> triple_less mt t)
          then max_loop alts vs (Some (v, t))
          else max_loop alts vs mx)"

definition std_maxSatisfying :: "string list \<Rightarrow> string \<Rightarrow> error + string option" where
  "std_maxSatisfying vs r =
     (case parse_range r of None \<Rightarrow> Inr None | Some alts \<Rightarrow> max_loop alts vs None)"

definition std_major :: "string \<Rightarrow> error + nat" where
  "std_major v =
     (case parse_triple v of None \<Rightarrow> Inl (invalid_version v) | Some (a, b, c) \<Rightarrow> Inr a)"

definition std_minor :: "string \<Rightarrow> error + nat" where
  "std_minor v =
     (case parse_triple v of None \<Rightarrow> Inl (invalid_version v) | Some (a, b, c) \<Rightarrow> Inr b)"

definition std_patch :: "string \<Rightarrow> error + nat" where
  "std_patch v =
     (case parse_triple v of None \<Rightarrow> Inl (invalid_version v) | Some (a, b, c) \<Rightarrow> Inr c)"

definition semver_std :: semver where
  "semver_std =
     \<lparr>satisfies = std_satisfies, major = std_major, minor = std_minor, patch = std_patch,
      maxSatisfying = std_maxSatisfying\<rparr>"

section \<open>Example inputs\<close>

text \<open>
  The running versions of the examples in the doc comments (lines 50 and 202), a module
  URL, a release list whose newest release is the running one, and an importer.
\<close>

definition example_Deno_version :: obj where
  "example_Deno_version =
     [(''deno'', ''1.9.4''), (''typescript'', ''4.5.2''), (''v8'', ''9.9.115.7'')]"

definition example_url :: string where
  "example_url = ''file:///ensure_version.ts''"

definition example_releases :: "release list" where
  "example_releases = [(1, 9, 4), (1, 9, 3), (1, 9, 0), (1, 8, 0), (1, 5, 2)]"

definition example_importer :: ImportMeta where
  "example_importer = \<lparr>url = ''file:///main.ts'', main = True, resolve = (\<lambda>p. p)\<rparr>"

section \<open>Properties\<close>

lemma split_on_not_Nil: "split_on c s \<noteq> []"
  by (induction s) (auto split: list.splits)

lemma sublist_join: "x \<in> set xs \<Longrightarrow> sublist x (join sep xs)"
proof (induction sep xs rule: join.induct)
  case (1 sep)
  then show ?case by simp
next
  case (2 sep y)
  then show ?case by simp
next
  case (3 sep y z zs)
  show ?case
  proof (cases "x = y")
    case True
    then show ?thesis by (simp add: sublist_def) (metis append_Nil)
  next
    case False
    with 3 have "sublist x (join sep (z # zs))" by simp
    then obtain ps ss where "join sep (z # zs) = ps @ x @ ss" by (auto simp: sublist_def)
    then have "join sep (y # z # zs) = (y @ sep @ ps) @ x @ ss" by simp
    then show ?thesis unfolding sublist_def by blast
  qed
qed

lemma simple_loop_append:
  "snd (simple_loop sv u logs version pre) = Inr () \<Longrightarrow>
   simple_loop sv u logs version (pre @ rest) =
     (fst (simple_loop sv u logs version pre) @ fst (simple_loop sv u logs version rest),
      snd (simple_loop sv u logs version rest))"
proof (induction pre)
  case Nil
  then show ?case by simp
next
  case (Cons kv pre)
  obtain key running where kv: "kv = (key, running)" by (cases kv)
  from Cons.prems show ?case
    using Cons.IH by (auto simp: kv split: sum.splits prod.splits)
qed

lemma catalog_loop_append:
  "snd (catalog_loop sv cat imp logs version pre) = Inr () \<Longrightarrow>
   catalog_loop sv cat imp logs version (pre @ rest) =
     (fst (catalog_loop sv cat imp logs version pre) @ fst (catalog_loop sv cat imp logs version rest),
      snd (catalog_loop sv cat imp logs version rest))"
proof (induction pre)
  case Nil
  then show ?case by simp
next
  case (Cons kv pre)
  obtain key running where kv: "kv = (key, running)" by (cases kv)
  from Cons.prems show ?case
    using Cons.IH by (auto simp: kv split: sum.splits prod.splits)
qed

lemma simple_iteration_calls:
  "simple_iteration sv u logs version key running = Inr calls \<Longrightarrow> length calls \<le> 1"
  by (auto simp: simple_iteration_def Let_def split: option.splits sum.splits if_splits)

lemma catalog_iteration_calls:
  "catalog_iteration sv cat imp logs version key running = Inr calls \<Longrightarrow> length calls \<le> 1"
  by (auto simp: catalog_iteration_def Let_def split: option.splits sum.splits if_splits)

lemma simple_loop_keys:
  "fst ` set (fst (simple_loop sv u logs version dv)) \<subseteq> fst ` set dv"
proof (induction dv)
  case Nil
  then show ?case by simp
next
  case (Cons kv dv)
  obtain key running where kv: "kv = (key, running)" by (cases kv)
  obtain out r where lp: "simple_loop sv u logs version dv = (out, r)"
    by (cases "simple_loop sv u logs version dv")
  have IH: "fst ` set out \<subseteq> fst ` set dv" using Cons.IH lp by simp
  show ?case
  proof (cases "simple_iteration sv u logs version key running")
    case (Inl e)
    then show ?thesis by (simp add: kv)
  next
    case (Inr calls)
    have "fst ` set (map (Pair key) calls @ out) \<subseteq> insert key (fst ` set dv)"
      using IH by auto
    then show ?thesis by (simp add: kv Inr lp)
  qed
qed

lemma catalog_loop_keys:
  "fst ` set (fst (catalog_loop sv cat imp logs version dv)) \<subseteq> fst ` set dv"
proof (induction dv)
  case Nil
  then show ?case by simp
next
  case (Cons kv dv)
  obtain key running where kv: "kv = (key, running)" by (cases kv)
  obtain out r where lp: "catalog_loop sv cat imp logs version dv = (out, r)"
    by (cases "catalog_loop sv cat imp logs version dv")
  have IH: "fst ` set out \<subseteq> fst ` set dv" using Cons.IH lp by simp
  show ?case
  proof (cases "catalog_iteration sv cat imp logs version key running")
    case (Inl e)
    then show ?thesis by (simp add: kv)
  next
    case (Inr calls)
    have "fst ` set (map (Pair key) calls @ out) \<subseteq> insert key (fst ` set dv)"
      using IH by auto
    then show ?thesis by (simp add: kv Inr lp)
  qed
qed

lemma filter_absent: "k \<notin> fst ` set out \<Longrightarrow> filter (\<lambda>e. fst e = k) out = []"
  by (induction out) auto

lemma simple_loop_once:
  "distinct (map fst dv) \<Longrightarrow>
   length (filter (\<lambda>e. fst e = k) (fst (simple_loop sv u logs version dv))) \<le> 1"
proof (induction dv)
  case Nil
  then show ?case by simp
next
  case (Cons kv dv)
  obtain key running where kv: "kv = (key, running)" by (cases kv)
  from Cons.prems have fresh: "key \<notin> fst ` set dv" and d: "distinct (map fst dv)"
    by (auto simp: kv)
  have IH: "length (filter (\<lambda>e. fst e = k) (fst (simple_loop sv u logs version dv))) \<le> 1"
    using Cons.IH d by simp
  show ?case
  proof (cases "simple_iteration sv u logs version key running")
    case (Inl e)
    then show ?thesis by (simp add: kv)
  next
    case (Inr calls)
    obtain out r where lp: "simple_loop sv u logs version dv = (out, r)" by (cases "simple_loop sv u logs version dv")
    have len: "length calls \<le> 1" using Inr by (rule simple_iteration_calls)
    show ?thesis
    proof (cases "k = key")
      case True
      have "key \<notin> fst ` set out" using fresh simple_loop_keys [of sv u logs version dv] lp by auto
      then have "filter (\<lambda>e. fst e = key) out = []" by (rule filter_absent)
      then show ?thesis using len by (simp add: kv Inr lp True filter_map o_def)
    next
      case False
      then show ?thesis using IH by (simp add: kv Inr lp filter_map o_def)
    qed
  qed
qed

lemma catalog_loop_once:
  "distinct (map fst dv) \<Longrightarrow>
   length (filter (\<lambda>e. fst e = k) (fst (catalog_loop sv cat imp logs version dv))) \<le> 1"
proof (induction dv)
  case Nil
  then show ?case by simp
next
  case (Cons kv dv)
  obtain key running where kv: "kv = (key, running)" by (cases kv)
  from Cons.prems have fresh: "key \<notin> fst ` set dv" and d: "distinct (map fst dv)"
    by (auto simp: kv)
  have IH: "length (filter (\<lambda>e. fst e = k) (fst (catalog_loop sv cat imp logs version dv))) \<le> 1"
    using Cons.IH d by simp
  show ?case
  proof (cases "catalog_iteration sv cat imp logs version key running")
    case (Inl e)
    then show ?thesis by (simp add: kv)
  next
    case (Inr calls)
    obtain out r where lp: "catalog_loop sv cat imp logs version dv = (out, r)" by (cases "catalog_loop sv cat imp logs version dv")
    have len: "length calls \<le> 1" using Inr by (rule catalog_iteration_calls)
    show ?thesis
    proof (cases "k = key")
      case True
      have "key \<notin> fst ` set out" using fresh catalog_loop_keys [of sv cat imp logs version dv] lp by auto
      then have "filter (\<lambda>e. fst e = key) out = []" by (rule filter_absent)
      then show ?thesis using len by (simp add: kv Inr lp True filter_map o_def)
    next
      case False
      then show ?thesis using IH by (simp add: kv Inr lp filter_map o_def)
    qed
  qed
qed

lemma at_most_one_eq:
  "length (filter P xs) \<le> 1 \<Longrightarrow> x \<in> set xs \<Longrightarrow> y \<in> set xs \<Longrightarrow> P x \<Longrightarrow> P y \<Longrightarrow> x = y"
proof -
  assume a: "length (filter P xs) \<le> 1" "x \<in> set xs" "y \<in> set xs" "P x" "P y"
  then have "x \<in> set (filter P xs)" "y \<in> set (filter P xs)" by auto
  with a(1) show "x = y" by (cases "filter P xs") auto
qed

lemma simple_once:
  "distinct (map fst dv) \<Longrightarrow>
   length (filter (\<lambda>e. fst e = k) (fst (ensureVersion_simple sv u dv version logs))) \<le> 1"
  using simple_loop_once [of dv k sv u _ _]
  by (auto simp: ensureVersion_simple_def simple_checks_def Let_def split: requirement.splits)

lemma catalog_once:
  "distinct (map fst dv) \<Longrightarrow>
   length (filter (\<lambda>e. fst e = k) (fst (ensureVersion_catalog sv cat dv version logs imp))) \<le> 1"
  using catalog_loop_once [of dv k sv cat _ _ _]
  by (auto simp: ensureVersion_catalog_def catalog_checks_def Let_def split: requirement.splits)

lemma split_on_pieces: "w \<in> set (split_on c s) \<Longrightarrow> c \<notin> set w"
proof (induction s arbitrary: w)
  case Nil
  then show ?case by simp
next
  case (Cons x s)
  show ?case
  proof (cases "x = c")
    case True
    with Cons show ?thesis by auto
  next
    case False
    obtain p ps where sp: "split_on c s = p # ps"
      using split_on_not_Nil [of c s] by (cases "split_on c s") auto
    from Cons.prems False sp have "w = x # p \<or> w \<in> set ps" by simp
    then show ?thesis
      using Cons.IH [of p] Cons.IH [of w] sp False by auto
  qed
qed

lemma split_on_no_sep: "c \<notin> set w \<Longrightarrow> split_on c w = [w]"
  by (induction w) auto

lemma split_on_append_sep:
  "c \<notin> set w \<Longrightarrow> split_on c (w @ c # s) = w # split_on c s"
  by (induction w) auto

lemma split_on_join:
  "ws \<noteq> [] \<Longrightarrow> \<forall>w \<in> set ws. c \<notin> set w \<Longrightarrow> split_on c (join [c] ws) = ws"
proof (induction "[c]" ws rule: join.induct)
  case 1
  then show ?case by simp
next
  case (2 x)
  then show ?case by (simp add: split_on_no_sep)
next
  case (3 x y ys)
  then show ?case by (simp add: split_on_append_sep)
qed

lemma first3_idem: "first3 (first3 s) = first3 s"
proof -
  let ?ws = "take 3 (split_on CHR ''.'' s)"
  have ne: "?ws \<noteq> []" using split_on_not_Nil [of "CHR ''.''" s] by simp
  have clean: "\<forall>w \<in> set ?ws. CHR ''.'' \<notin> set w"
    by (meson in_set_takeD split_on_pieces)
  have "split_on CHR ''.'' (join ''.'' ?ws) = ?ws"
    using split_on_join [OF ne clean] by simp
  then show ?thesis by (simp add: first3_def)
qed

lemma first3_pieces: "length (split_on CHR ''.'' (first3 s)) \<le> 3"
proof -
  let ?ws = "take 3 (split_on CHR ''.'' s)"
  have ne: "?ws \<noteq> []" using split_on_not_Nil [of "CHR ''.''" s] by simp
  have clean: "\<forall>w \<in> set ?ws. CHR ''.'' \<notin> set w"
    by (meson in_set_takeD split_on_pieces)
  have "split_on CHR ''.'' (join ''.'' ?ws) = ?ws"
    using split_on_join [OF ne clean] by simp
  then show ?thesis by (simp add: first3_def)
qed

lemma simple_iteration_first3:
  "simple_iteration sv u logs version key (first3 running) =
   simple_iteration sv u logs version key running"
  by (simp add: simple_iteration_def first3_idem)

lemma catalog_iteration_first3:
  "catalog_iteration sv cat imp logs version key (first3 running) =
   catalog_iteration sv cat imp logs version key running"
  by (simp add: catalog_iteration_def first3_idem)

lemma simple_loop_first3:
  "simple_loop sv u logs version (map (\<lambda>(k, v). (k, first3 v)) dv) =
   simple_loop sv u logs version dv"
  by (induction dv) (auto simp: simple_iteration_first3 split: sum.splits)

lemma catalog_loop_first3:
  "catalog_loop sv cat imp logs version (map (\<lambda>(k, v). (k, first3 v)) dv) =
   catalog_loop sv cat imp logs version dv"
  by (induction dv) (auto simp: catalog_iteration_first3 split: sum.splits)

lemma Object_keys_first3: "Object_keys (map (\<lambda>(k, v). (k, first3 v)) dv) = Object_keys dv"
  by (induction dv) (auto simp: Object_keys_def)

lemma simple_checks_first3:
  "simple_checks sv u (map (\<lambda>(k, v). (k, first3 v)) dv) m logs =
   simple_checks sv u dv m logs"
  by (simp add: simple_checks_def simple_loop_first3 empty_requirement_def Object_keys_first3)

lemma simple_first3:
  "ensureVersion_simple sv u (map (\<lambda>(k, v). (k, first3 v)) dv) version logs =
   ensureVersion_simple sv u dv version logs"
  by (cases version) (simp_all add: ensureVersion_simple_def simple_checks_first3)

lemma catalog_checks_first3:
  "catalog_checks sv cat (map (\<lambda>(k, v). (k, first3 v)) dv) m logs imp =
   catalog_checks sv cat dv m logs imp"
  by (simp add: catalog_checks_def catalog_loop_first3 empty_requirement_def Object_keys_first3)

lemma catalog_first3:
  "ensureVersion_catalog sv cat (map (\<lambda>(k, v). (k, first3 v)) dv) version logs imp =
   ensureVersion_catalog sv cat dv version logs imp"
  by (cases version) (simp_all add: ensureVersion_catalog_def catalog_checks_first3)

lemma first3_example: "first3 ''1.9.4.1'' = ''1.9.4''"
  by (simp add: first3_def)

lemma mentions_each:
  "sublist k (k @ s1 @ v @ s2 @ r @ s3 @ w) \<and> sublist v (k @ s1 @ v @ s2 @ r @ s3 @ w) \<and>
   sublist r (k @ s1 @ v @ s2 @ r @ s3 @ w) \<and> sublist w (k @ s1 @ v @ s2 @ r @ s3 @ w)"
proof -
  have 1: "sublist k (k @ s1 @ v @ s2 @ r @ s3 @ w)" by (rule sublist_append_rightI)
  have "sublist v ((k @ s1) @ v @ (s2 @ r @ s3 @ w))" by (rule sublist_appendI)
  then have 2: "sublist v (k @ s1 @ v @ s2 @ r @ s3 @ w)" by simp
  have "sublist r ((k @ s1 @ v @ s2) @ r @ (s3 @ w))" by (rule sublist_appendI)
  then have 3: "sublist r (k @ s1 @ v @ s2 @ r @ s3 @ w)" by simp
  have "sublist w ((k @ s1 @ v @ s2 @ r @ s3) @ w)" by (rule sublist_append_leftI)
  then have 4: "sublist w (k @ s1 @ v @ s2 @ r @ s3 @ w)" by simp
  from 1 2 3 4 show ?thesis by blast
qed

lemma mismatch_simple_mentions:
  "sublist key (mismatch_simple key origin required u) \<and>
   sublist origin (mismatch_simple key origin required u) \<and>
   sublist required (mismatch_simple key origin required u) \<and>
   sublist u (mismatch_simple key origin required u)"
  unfolding mismatch_simple_def by (rule mentions_each)

lemma mismatch_catalog_mentions:
  "sublist key (mismatch_catalog key origin required (importerName imp)) \<and>
   sublist origin (mismatch_catalog key origin required (importerName imp)) \<and>
   sublist required (mismatch_catalog key origin required (importerName imp)) \<and>
   (\<forall>im. imp = Some im \<longrightarrow>
      sublist (url im) (mismatch_catalog key origin required (importerName imp)))"
proof -
  let ?m = "mismatch_catalog key origin required (importerName imp)"
  have a: "sublist key ?m \<and> sublist origin ?m \<and> sublist required ?m"
    unfolding mismatch_catalog_def using mentions_each by blast
  have b: "sublist (url im) ?m" if "imp = Some im" for im
  proof -
    have "importerName imp = '' by '' @ url im" using that by (simp add: importerName_def)
    then have "?m = key @ ''@'' @ origin @ '' not match version '' @ required @
                      '' required by '' @ url im"
      by (simp add: mismatch_catalog_def)
    then show ?thesis using mentions_each by metis
  qed
  from a b show ?thesis by blast
qed

lemma simple_loop_reach:
  assumes "snd (simple_loop sv u logs version pre) = Inr ()"
  shows "snd (simple_loop sv u logs version (pre @ (key, running) # post)) =
         (case simple_iteration sv u logs version key running of
            Inl e \<Rightarrow> Inl e
          | Inr calls \<Rightarrow> snd (simple_loop sv u logs version post))"
  by (simp add: simple_loop_append [OF assms] split: sum.splits prod.splits)

lemma catalog_loop_reach:
  assumes "snd (catalog_loop sv cat imp logs version pre) = Inr ()"
  shows "snd (catalog_loop sv cat imp logs version (pre @ (key, running) # post)) =
         (case catalog_iteration sv cat imp logs version key running of
            Inl e \<Rightarrow> Inl e
          | Inr calls \<Rightarrow> snd (catalog_loop sv cat imp logs version post))"
  by (simp add: catalog_loop_append [OF assms] split: sum.splits prod.splits)

lemma simple_present:
  "map_of version key = Some required \<Longrightarrow>
   ensureVersion_simple sv u dv (Mapping version) logs =
     simple_loop sv u (logs_default logs) version dv"
  by (auto simp: ensureVersion_simple_def simple_checks_def Object_keys_def)

lemma catalog_present:
  "map_of version key = Some required \<Longrightarrow>
   ensureVersion_catalog sv cat dv (Mapping version) logs imp =
     catalog_loop sv cat (importerName imp) (logs_default logs) version dv"
  by (auto simp: ensureVersion_catalog_def catalog_checks_def Object_keys_def)

lemma range_arr_negative: "mx < mn \<Longrightarrow> range_arr mn mx = Inl (RangeError ''Invalid array length'')"
  by (simp add: range_arr_def)

lemma maxMinor_over:
  "major sv v = Inr ma \<Longrightarrow> minor sv v = Inr mi \<Longrightarrow> 100 < mi \<Longrightarrow>
   maxMinor sv v r = Inl (RangeError ''Invalid array length'')"
  by (simp add: maxMinor_def range_arr_def)

lemma maxPatch_over:
  "major sv v = Inr ma \<Longrightarrow> minor sv v = Inr mi \<Longrightarrow> patch sv v = Inr pa \<Longrightarrow> 500 < pa \<Longrightarrow>
   maxPatch sv v r = Inl (RangeError ''Invalid array length'')"
  by (simp add: maxPatch_def range_arr_def)

lemma maxMinor_returns:
  "minor sv v = Inr mi \<Longrightarrow> maxMinor sv v r = Inr b \<Longrightarrow> mi \<le> 100"
  by (auto simp: maxMinor_def range_arr_def split: sum.splits if_splits)

lemma maxPatch_returns:
  "patch sv v = Inr pa \<Longrightarrow> maxPatch sv v r = Inr b \<Longrightarrow> pa \<le> 500"
  by (auto simp: maxPatch_def range_arr_def split: sum.splits if_splits)

lemma join_Cons_Cons: "join sep ((x # w) # ws) = x # join sep (w # ws)"
  by (cases ws) simp_all

lemma join_split_on: "join [c] (split_on c s) = s"
proof (induction s)
  case Nil
  then show ?case by simp
next
  case (Cons x s)
  obtain w ws where sp: "split_on c s = w # ws"
    using split_on_not_Nil [of c s] by (cases "split_on c s") auto
  show ?case
  proof (cases "x = c")
    case True
    then show ?thesis using Cons.IH by (simp add: sp)
  next
    case False
    then show ?thesis using Cons.IH by (simp add: sp join_Cons_Cons)
  qed
qed

lemma first3_short: "length (split_on CHR ''.'' s) \<le> 3 \<Longrightarrow> first3 s = s"
  by (simp add: first3_def join_split_on)

text \<open>
  In both variants the running version of every component is cut to its first three
  dot-separated pieces before it is used: a call behaves the same on a \<^verbatim>\<open>Deno.version\<close>
  and on its cut copy, and a component reported as \<^verbatim>\<open>1.9.4.1\<close> gives the same console
  calls and the same result as one reported as \<^verbatim>\<open>1.9.4\<close>, for every requirement, key,
  library and flag.
\<close>

lemma running_version_truncated:
  "ensureVersion_simple sv u (map (\<lambda>(k, v). (k, first3 v)) dv) version logs =
     ensureVersion_simple sv u dv version logs \<and>
   ensureVersion_catalog sv cat (map (\<lambda>(k, v). (k, first3 v)) dv) version logs imp =
     ensureVersion_catalog sv cat dv version logs imp \<and>
   ensureVersion_simple sv u (pre @ (key, ''1.9.4.1'') # post) version logs =
     ensureVersion_simple sv u (pre @ (key, ''1.9.4'') # post) version logs \<and>
   ensureVersion_catalog sv cat (pre @ (key, ''1.9.4.1'') # post) version logs imp =
     ensureVersion_catalog sv cat (pre @ (key, ''1.9.4'') # post) version logs imp \<and>
   length (split_on CHR ''.'' (first3 running)) \<le> 3"
proof -
  let ?f = "\<lambda>(k, v). (k, first3 v)"
  have same: "map ?f (pre @ (key, ''1.9.4.1'') # post) = map ?f (pre @ (key, ''1.9.4'') # post)"
    by (simp add: first3_def)
  have s: "ensureVersion_simple sv u (pre @ (key, ''1.9.4.1'') # post) version logs =
           ensureVersion_simple sv u (pre @ (key, ''1.9.4'') # post) version logs"
    using simple_first3 [of sv u "pre @ (key, ''1.9.4.1'') # post" version logs]
      simple_first3 [of sv u "pre @ (key, ''1.9.4'') # post" version logs]
    by (simp only: same)
  have c: "ensureVersion_catalog sv cat (pre @ (key, ''1.9.4.1'') # post) version logs imp =
           ensureVersion_catalog sv cat (pre @ (key, ''1.9.4'') # post) version logs imp"
    using catalog_first3 [of sv cat "pre @ (key, ''1.9.4.1'') # post" version logs imp]
      catalog_first3 [of sv cat "pre @ (key, ''1.9.4'') # post" version logs imp]
    by (simp only: same)
  from s c show ?thesis
    by (simp only: simple_first3 catalog_first3 first3_pieces simp_thms)
qed

lemma catalog_iteration_flag:
  assumes "\<And>v n. minor sv v = Inr n \<Longrightarrow> \<exists>p. patch sv v = Inr p"
  shows "map_sum id (\<lambda>_. ()) (catalog_iteration sv cat n l version key running) =
         map_sum id (\<lambda>_. ()) (catalog_iteration sv cat n False version key running)"
  using assms
  by (fastforce simp: catalog_iteration_def Let_def split: option.splits sum.splits)

lemma catalog_loop_flag:
  assumes "\<And>v n. minor sv v = Inr n \<Longrightarrow> \<exists>p. patch sv v = Inr p"
  shows "snd (catalog_loop sv cat n l version dv) = snd (catalog_loop sv cat n False version dv)"
proof (induction dv)
  case Nil
  then show ?case by simp
next
  case (Cons kv dv)
  obtain key running where kv: "kv = (key, running)" by (cases kv)
  have it: "map_sum id (\<lambda>_. ()) (catalog_iteration sv cat n l version key running) =
            map_sum id (\<lambda>_. ()) (catalog_iteration sv cat n False version key running)"
    using assms by (rule catalog_iteration_flag)
  show ?case
  proof (cases "catalog_iteration sv cat n l version key running")
    case (Inl e)
    with it have "catalog_iteration sv cat n False version key running = Inl e"
      by (cases "catalog_iteration sv cat n False version key running") simp_all
    with Inl show ?thesis by (simp add: kv)
  next
    case (Inr calls)
    with it obtain calls' where "catalog_iteration sv cat n False version key running = Inr calls'"
      by (cases "catalog_iteration sv cat n False version key running") simp_all
    with Inr Cons.IH show ?thesis by (auto simp: kv split: prod.splits)
  qed
qed

text \<open>
  In the catalog-aware variant the flag does not change whether the call returns or which
  error it throws, for a library whose \<^verbatim>\<open>patch\<close> returns wherever its \<^verbatim>\<open>minor\<close> does.
\<close>

lemma catalog_flag_independent:
  assumes "\<And>v n. minor sv v = Inr n \<Longrightarrow> \<exists>p. patch sv v = Inr p"
  shows "snd (ensureVersion_catalog sv cat dv version l1 imp) =
         snd (ensureVersion_catalog sv cat dv version l2 imp)"
proof -
  have "snd (catalog_checks sv cat dv m a imp) = snd (catalog_checks sv cat dv m b imp)" for m a b
    using catalog_loop_flag [OF assms, where cat = cat and n = "importerName imp" and l = a
          and version = m and dv = dv]
      catalog_loop_flag [OF assms, where cat = cat and n = "importerName imp" and l = b
          and version = m and dv = dv]
    by (simp add: catalog_checks_def)
  then show ?thesis
    by (cases version) (simp_all add: ensureVersion_catalog_def)
qed

subsection \<open>The library instance on the example inputs\<close>

lemma example_first3:
  "first3 ''1.9.4'' = ''1.9.4''" "first3 ''4.5.2'' = ''4.5.2''"
  "first3 ''9.9.115.7'' = ''9.9.115''" "first3 ''1.9.501'' = ''1.9.501''"
  "first3 ''1.101.0'' = ''1.101.0''" "first3 ''>=1.8.0'' = ''>=1.8.0''"
  "first3 ''1.9.3'' = ''1.9.3''" "first3 ''3.2.1'' = ''3.2.1''"
  "first3 ''>=1.8.0 <1.9.5'' = ''>=1.8.0 <1''"
  by (simp_all add: first3_def)

lemma example_satisfies:
  "satisfies semver_std ''1.9.4'' ''>=1.8.0'' = Inr True"
  "satisfies semver_std ''4.5.2'' ''3.2.1'' = Inr False"
  "satisfies semver_std ''1.9.4'' ''1.9.3'' = Inr False"
  "satisfies semver_std ''1.9.4'' ''1.9.4.1'' = Inr False"
  "satisfies semver_std ''1.9.4'' ''1.9.4'' = Inr True"
  "satisfies semver_std ''1.9.501'' ''>=1.8.0'' = Inr True"
  "satisfies semver_std ''1.101.0'' ''>=1.0.0'' = Inr True"
  "satisfies semver_std ''9.9.115'' ''9.9.115.7'' = Inr False"
  "satisfies semver_std ''9.9.115'' ''9.9.115'' = Inr True"
  "satisfies semver_std ''1.9.4'' ''>=1.8.0 <1.9.5'' = Inr True"
  "satisfies semver_std ''1.9.4'' ''>=1.8.0 <1'' = Inr False"
  "satisfies semver_std ''9.9.115'' ''8.3.102'' = Inr False"
  by code_simp+

lemma example_parts:
  "major semver_std ''1.9.501'' = Inr 1" "minor semver_std ''1.9.501'' = Inr 9"
  "patch semver_std ''1.9.501'' = Inr 501"
  "major semver_std ''1.101.0'' = Inr 1" "minor semver_std ''1.101.0'' = Inr 101"
  "minor semver_std ''1.9.4'' = Inr 9" "patch semver_std ''1.9.4'' = Inr 4"
  by code_simp+

lemma example_maxMinor:
  "maxMinor semver_std ''1.9.4'' ''>=1.8.0'' = Inr True"
  "maxMinor semver_std ''1.9.501'' ''>=1.8.0'' = Inr True"
  by code_simp+

lemma example_maxOriginVersion:
  "maxOriginVersion semver_std example_releases ''>=1.8.0'' = Inr ''1.9.4''"
  "maxOriginVersion semver_std [] ''>=1.8.0'' = Inr ''>=1.8.0''"
  "minor semver_std ''>=1.8.0'' = Inl (TypeError ''Invalid Version: >=1.8.0'')"
  by code_simp+

lemmas run_simple =
  ensureVersion_simple_def simple_checks_def simple_iteration_def Object_keys_def
  logs_default_def mismatch_simple_def minor_advice_simple_def patch_advice_simple_def
  example_Deno_version_def example_url_def example_first3 example_satisfies example_maxMinor

lemmas run_catalog =
  ensureVersion_catalog_def catalog_checks_def catalog_iteration_def Object_keys_def
  logs_default_def mismatch_catalog_def minor_advice_catalog_def patch_advice_catalog_def
  importerName_def example_importer_def
  example_Deno_version_def example_first3 example_satisfies example_parts
  example_maxOriginVersion

section \<open>The claims\<close>

text \<open>
  C1. The claim: whenever the running version violates the required range of a present
  component key, a \<^verbatim>\<open>RangeError\<close> naming the first such key is thrown. The doc comment
  of the catalog-aware variant (lines 207-213) gives \<^verbatim>\<open>{deno: '>=1.8.0', typescript: '3.2.1'}\<close>
  as an input that throws on the running versions of the examples. On that input
  the catalog-aware variant returns normally: line 258 leaves the iteration for
  \<^verbatim>\<open>typescript\<close> and \<^verbatim>\<open>v8\<close> before \<^verbatim>\<open>semver.satisfies\<close> is called. The simple variant
  throws the error for \<^verbatim>\<open>typescript\<close>.
\<close>

theorem C1_typescript_mismatch_not_thrown:
  "satisfies semver_std (first3 ''4.5.2'') (first3 ''3.2.1'') = Inr False \<and>
   ensureVersion_catalog semver_std example_releases example_Deno_version
     (Mapping [(''deno'', ''>=1.8.0''), (''typescript'', ''3.2.1'')]) None None = ([], Inr ()) \<and>
   snd (ensureVersion_simple semver_std example_url example_Deno_version
     (Mapping [(''deno'', ''>=1.8.0''), (''typescript'', ''3.2.1'')]) None) =
     Inl (RangeError
       ''typescript@4.5.2 not match version 3.2.1 required by file:///ensure_version.ts'')"
  by (simp add: run_simple run_catalog)

text \<open>
  C2. The claim: a non-empty requirement whose ranges the running versions satisfy makes
  \<^verbatim>\<open>ensureVersion\<close> return. In the simple variant a running \<^verbatim>\<open>1.101.0\<close> satisfies
  \<^verbatim>\<open>>=1.0.0\<close> and the call throws from \<^verbatim>\<open>new Array(100 - 101)\<close> in \<^verbatim>\<open>range\<close>. In the
  catalog-aware variant a running \<^verbatim>\<open>1.9.4\<close> satisfies \<^verbatim>\<open>>=1.8.0\<close>; with a release list that
  has no satisfying entry \<^verbatim>\<open>maxOriginVersion\<close> falls back to the range string, and
  \<^verbatim>\<open>semver.minor\<close> throws on it.
\<close>

theorem C2_satisfied_requirement_throws:
  "satisfies semver_std (first3 ''1.101.0'') ''>=1.0.0'' = Inr True \<and>
   ensureVersion_simple semver_std example_url [(''deno'', ''1.101.0'')]
     (RangeString ''>=1.0.0'') None = ([], Inl (RangeError ''Invalid array length'')) \<and>
   satisfies semver_std (first3 ''1.9.4'') (first3 ''>=1.8.0'') = Inr True \<and>
   ensureVersion_catalog semver_std [] example_Deno_version
     (RangeString ''>=1.8.0'') None None = ([], Inl (TypeError ''Invalid Version: >=1.8.0''))"
  by (simp add: run_simple run_catalog maxMinor_over [OF example_parts(4,5)])

text \<open>
  C3. In both variants \<^verbatim>\<open>ensureVersion(undefined)\<close> and \<^verbatim>\<open>ensureVersion({})\<close> throw a
  \<^verbatim>\<open>TypeError\<close> before anything is logged, and the message for the empty mapping contains
  every key of \<^verbatim>\<open>Deno.version\<close>.
\<close>

theorem C3_undefined_and_empty_are_malformed:
  "ensureVersion_simple sv u dv Undefined logs = ([], Inl (TypeError not_a_semver)) \<and>
   ensureVersion_simple sv u dv (Mapping []) logs = ([], Inl (TypeError (empty_requirement dv))) \<and>
   ensureVersion_catalog sv cat dv Undefined logs imp = ([], Inl (TypeError not_a_semver)) \<and>
   ensureVersion_catalog sv cat dv (Mapping []) logs imp =
     ([], Inl (TypeError (empty_requirement dv))) \<and>
   (\<forall>key \<in> set (Object_keys dv). sublist key (empty_requirement dv))"
proof -
  have names: "sublist key (empty_requirement dv)" if "key \<in> set (Object_keys dv)" for key
  proof -
    from that have "sublist key (join '', '' (Object_keys dv))" by (rule sublist_join)
    then obtain ps ss where "join '', '' (Object_keys dv) = ps @ key @ ss"
      by (auto simp: sublist_def)
    then have "\<exists>ps' ss'. empty_requirement dv = ps' @ key @ ss'"
      unfolding empty_requirement_def by (metis append.assoc)
    then show ?thesis by (simp add: sublist_def)
  qed
  show ?thesis
    using names
    by (simp add: ensureVersion_simple_def ensureVersion_catalog_def simple_checks_def
        catalog_checks_def Object_keys_def)
qed

theorem C3_witness:
  \<open>ensureVersion_simple semver_std example_url example_Deno_version (Mapping []) None =
     ([], Inl (TypeError
        ''version "{}" should have at least one of these keys [deno, typescript, v8]'')) \<and>
   ''typescript'' \<in> set (Object_keys example_Deno_version) \<and>
   sublist ''typescript'' (empty_requirement example_Deno_version)\<close>
proof -
  have k: "''typescript'' \<in> set (Object_keys example_Deno_version)"
    by (simp add: Object_keys_def example_Deno_version_def)
  have m: \<open>empty_requirement example_Deno_version =
    ''version "{}" should have at least one of these keys [deno, typescript, v8]''\<close>
    by (simp add: empty_requirement_def Object_keys_def example_Deno_version_def)
  from C3_undefined_and_empty_are_malformed
         [of semver_std example_url example_Deno_version None]
  show ?thesis using k m by simp
qed

text \<open>
  C4. The claim: the running version and the version tokens of the required range are both
  cut to three dotted components before the comparison. The running version is (see
  \<open>running_version_truncated\<close>). The required range is not. The simple variant passes it
  to \<^verbatim>\<open>semver.satisfies\<close> as it is given (line 96): on the running \<^verbatim>\<open>v8\<close> version
  \<^verbatim>\<open>9.9.115.7\<close> the requirement \<^verbatim>\<open>{v8: '9.9.115.7'}\<close>, the form of the usage example of
  \<^verbatim>\<open>src/mod.ts\<close> (line 21), is a mismatch. The catalog-aware variant cuts the range string
  as a whole after its third dot-separated piece (line 254): \<^verbatim>\<open>>=1.8.0 <1.9.5\<close> becomes
  \<^verbatim>\<open>>=1.8.0 <1\<close>, and the running \<^verbatim>\<open>1.9.4\<close>, which satisfies the range, is a mismatch.
\<close>

theorem C4_required_range_not_truncated:
  "satisfies semver_std (first3 ''9.9.115.7'') (first3 ''9.9.115.7'') = Inr True \<and>
   ensureVersion_simple semver_std example_url example_Deno_version
     (Mapping [(''v8'', ''9.9.115.7'')]) None =
     ([], Inl (RangeError
        ''v8@9.9.115 not match version 9.9.115.7 required by file:///ensure_version.ts'')) \<and>
   satisfies semver_std (first3 ''1.9.4'') ''>=1.8.0 <1.9.5'' = Inr True \<and>
   ensureVersion_catalog semver_std example_releases example_Deno_version
     (RangeString ''>=1.8.0 <1.9.5'') None None =
     ([], Inl (RangeError ''deno@1.9.4 not match version >=1.8.0 <1.9.5 required''))"
  by (simp add: run_simple run_catalog)

text \<open>
  C5. The claim: whether \<^verbatim>\<open>ensureVersion\<close> returns or throws does not depend on the
  \<^verbatim>\<open>logs\<close> flag. In the simple variant, with the running version \<^verbatim>\<open>1.9.501\<close> and the
  requirement \<^verbatim>\<open>>=1.8.0\<close>, \<^verbatim>\<open>maxMinor\<close> is true: with \<^verbatim>\<open>logs\<close> the iteration warns and
  continues (line 106), and the call returns; without, line 109 calls \<^verbatim>\<open>maxPatch\<close>, where
  \<^verbatim>\<open>new Array(500 - 501)\<close> throws.
\<close>

theorem C5_logs_flag_changes_outcome:
  "snd (ensureVersion_simple semver_std example_url [(''deno'', ''1.9.501'')]
     (RangeString ''>=1.8.0'') (Some True)) = Inr () \<and>
   snd (ensureVersion_simple semver_std example_url [(''deno'', ''1.9.501'')]
     (RangeString ''>=1.8.0'') (Some False)) = Inl (RangeError ''Invalid array length'')"
  by (simp add: run_simple maxPatch_over [OF example_parts(1,2,3)])

text \<open>
  C6. In both variants a call with the bare range string \<open>s\<close> has the same console calls
  and the same result as the call with the mapping \<^verbatim>\<open>{deno: s}\<close>, for every \<open>s\<close>, flag,
  importer, library and running versions.
\<close>

theorem C6_string_is_deno_mapping:
  "ensureVersion_simple sv u dv (RangeString s) logs =
     ensureVersion_simple sv u dv (Mapping [(''deno'', s)]) logs \<and>
   ensureVersion_catalog sv cat dv (RangeString s) logs imp =
     ensureVersion_catalog sv cat dv (Mapping [(''deno'', s)]) logs imp"
  by (simp add: ensureVersion_simple_def ensureVersion_catalog_def)

text \<open>
  C7. \<^verbatim>\<open>Deno.version\<close> is an object, so its keys are distinct. Then in both variants a
  call makes at most one console call for each key, and never both the warning (the minor
  advisory) and the info (the patch advisory) for the same key.
\<close>

theorem C7_at_most_one_advisory_per_key:
  assumes "distinct (map fst dv)"
  shows "length (filter (\<lambda>e. fst e = key) (fst (ensureVersion_simple sv u dv version logs))) \<le> 1 \<and>
         length (filter (\<lambda>e. fst e = key)
                   (fst (ensureVersion_catalog sv cat dv version logs imp))) \<le> 1 \<and>
         \<not> ((key, Console_warn m c) \<in> set (fst (ensureVersion_simple sv u dv version logs)) \<and>
            (key, Console_info m' c') \<in> set (fst (ensureVersion_simple sv u dv version logs))) \<and>
         \<not> ((key, Console_warn m c) \<in> set (fst (ensureVersion_catalog sv cat dv version logs imp)) \<and>
            (key, Console_info m' c') \<in>
              set (fst (ensureVersion_catalog sv cat dv version logs imp)))"
proof -
  let ?s = "fst (ensureVersion_simple sv u dv version logs)"
  let ?c = "fst (ensureVersion_catalog sv cat dv version logs imp)"
  have s: "length (filter (\<lambda>e. fst e = key) ?s) \<le> 1" using assms by (rule simple_once)
  have c: "length (filter (\<lambda>e. fst e = key) ?c) \<le> 1" using assms by (rule catalog_once)
  have ns: False
    if "(key, Console_warn m c) \<in> set ?s" and "(key, Console_info m' c') \<in> set ?s"
    using at_most_one_eq [OF s that] by simp
  have nc: False
    if "(key, Console_warn m c) \<in> set ?c" and "(key, Console_info m' c') \<in> set ?c"
    using at_most_one_eq [OF c that] by simp
  from s c ns nc show ?thesis by blast
qed

theorem C7_witness:
  "distinct (map fst example_Deno_version) \<and>
   fst (ensureVersion_simple semver_std example_url example_Deno_version
          (RangeString ''>=1.8.0'') None) =
     [(''deno'', Console_warn
        ''%cdeno@1.9.4 not match maximum minor >=1.8.0 required by file:///ensure_version.ts, deno minor can be upgraded''
        ''color: yellow'')] \<and>
   length (filter (\<lambda>e. fst e = ''deno'')
     (fst (ensureVersion_simple semver_std example_url example_Deno_version
             (RangeString ''>=1.8.0'') None))) \<le> 1"
proof -
  have d: "distinct (map fst example_Deno_version)"
    by (simp add: example_Deno_version_def)
  have r: "fst (ensureVersion_simple semver_std example_url example_Deno_version
          (RangeString ''>=1.8.0'') None) =
     [(''deno'', Console_warn
        ''%cdeno@1.9.4 not match maximum minor >=1.8.0 required by file:///ensure_version.ts, deno minor can be upgraded''
        ''color: yellow'')]"
    by (simp add: run_simple)
  from C7_at_most_one_advisory_per_key [OF d, of "''deno''" semver_std example_url
      "RangeString ''>=1.8.0''" None]
  show ?thesis using d r by simp
qed

text \<open>
  C8. The claim: the message of every version-mismatch error contains the component key,
  the running version, the required range and, when the caller supplied one, the caller
  context. The message is built from \<^verbatim>\<open>origin\<close>, the running version cut to its first
  three dot-separated pieces (lines 95 and 101, 253 and 261). For the running \<^verbatim>\<open>v8\<close>
  version \<^verbatim>\<open>9.9.115.7\<close> of the doc comments and the requirement \<^verbatim>\<open>{v8: '8.3.102'}\<close> the
  simple variant throws a message with \<^verbatim>\<open>v8@9.9.115\<close>, which does not contain
  \<^verbatim>\<open>9.9.115.7\<close>.
\<close>

theorem C8_running_version_not_in_message:
  "ensureVersion_simple semver_std example_url example_Deno_version
     (Mapping [(''v8'', ''8.3.102'')]) None =
     ([], Inl (RangeError
        ''v8@9.9.115 not match version 8.3.102 required by file:///ensure_version.ts'')) \<and>
   map_of example_Deno_version ''v8'' = Some ''9.9.115.7'' \<and>
   \<not> sublist ''9.9.115.7''
       ''v8@9.9.115 not match version 8.3.102 required by file:///ensure_version.ts''"
proof -
  have r: "ensureVersion_simple semver_std example_url example_Deno_version
     (Mapping [(''v8'', ''8.3.102'')]) None =
     ([], Inl (RangeError
        ''v8@9.9.115 not match version 8.3.102 required by file:///ensure_version.ts''))"
    by (simp add: run_simple)
  have v: "map_of example_Deno_version ''v8'' = Some ''9.9.115.7''"
    by (simp add: example_Deno_version_def)
  have n: "\<not> sublist ''9.9.115.7''
       ''v8@9.9.115 not match version 8.3.102 required by file:///ensure_version.ts''"
    by code_simp
  from r v n show ?thesis by simp
qed

text \<open>
  C8, amended. When the iteration for a key is reached (the keys before it pass) and
  \<^verbatim>\<open>semver.satisfies\<close> is false for it, the call throws a \<^verbatim>\<open>RangeError\<close> whose message
  contains the key, the running version cut to its first three dot-separated pieces (the
  running version itself when it has at most three), the required range as the caller
  gave it and, in the simple variant, \<^verbatim>\<open>import.meta.url\<close>, in the catalog-aware variant the
  importer's URL when an importer is passed. This is the only \<^verbatim>\<open>throw\<close> of a version
  mismatch (lines 101 and 261). In the catalog-aware variant the iteration reaches the
  comparison only for keys other than \<^verbatim>\<open>typescript\<close> and \<^verbatim>\<open>v8\<close>.
\<close>

theorem C8_mismatch_message:
  assumes "map_of version key = Some required"
  shows "(snd (ensureVersion_simple sv u pre (Mapping version) logs) = Inr () \<and>
          satisfies sv (first3 running) required = Inr False \<longrightarrow>
          (\<exists>msg. snd (ensureVersion_simple sv u (pre @ (key, running) # post) (Mapping version) logs)
                    = Inl (RangeError msg) \<and>
                 sublist key msg \<and> sublist (first3 running) msg \<and> sublist required msg \<and>
                 sublist u msg \<and>
                 (length (split_on CHR ''.'' running) \<le> 3 \<longrightarrow> sublist running msg))) \<and>
         (snd (ensureVersion_catalog sv cat pre (Mapping version) logs imp) = Inr () \<and>
          key \<noteq> ''typescript'' \<and> key \<noteq> ''v8'' \<and>
          satisfies sv (first3 running) (first3 required) = Inr False \<longrightarrow>
          (\<exists>msg. snd (ensureVersion_catalog sv cat (pre @ (key, running) # post) (Mapping version)
                         logs imp) = Inl (RangeError msg) \<and>
                 sublist key msg \<and> sublist (first3 running) msg \<and> sublist required msg \<and>
                 (\<forall>im. imp = Some im \<longrightarrow> sublist (url im) msg) \<and>
                 (length (split_on CHR ''.'' running) \<le> 3 \<longrightarrow> sublist running msg)))"
proof (intro conjI impI)
  assume a: "snd (ensureVersion_simple sv u pre (Mapping version) logs) = Inr () \<and>
             satisfies sv (first3 running) required = Inr False"
  then have pre: "snd (simple_loop sv u (logs_default logs) version pre) = Inr ()"
    by (simp add: simple_present [OF assms])
  have it: "simple_iteration sv u (logs_default logs) version key running =
              Inl (RangeError (mismatch_simple key (first3 running) required u))"
    using a assms by (simp add: simple_iteration_def)
  have thrown:
    "snd (ensureVersion_simple sv u (pre @ (key, running) # post) (Mapping version) logs) =
       Inl (RangeError (mismatch_simple key (first3 running) required u))"
    by (simp add: simple_present [OF assms] simple_loop_reach [OF pre] it)
  have short: "sublist running (mismatch_simple key (first3 running) required u)"
    if "length (split_on CHR ''.'' running) \<le> 3"
    using mismatch_simple_mentions [of key "first3 running" required u] first3_short [OF that]
    by simp
  show "\<exists>msg. snd (ensureVersion_simple sv u (pre @ (key, running) # post) (Mapping version) logs)
                    = Inl (RangeError msg) \<and>
                 sublist key msg \<and> sublist (first3 running) msg \<and> sublist required msg \<and>
                 sublist u msg \<and>
                 (length (split_on CHR ''.'' running) \<le> 3 \<longrightarrow> sublist running msg)"
    using thrown short mismatch_simple_mentions [of key "first3 running" required u]
    by (intro exI [of _ "mismatch_simple key (first3 running) required u"]) simp
next
  assume a: "snd (ensureVersion_catalog sv cat pre (Mapping version) logs imp) = Inr () \<and>
          key \<noteq> ''typescript'' \<and> key \<noteq> ''v8'' \<and>
          satisfies sv (first3 running) (first3 required) = Inr False"
  then have pre: "snd (catalog_loop sv cat (importerName imp) (logs_default logs) version pre) = Inr ()"
    by (simp add: catalog_present [OF assms])
  have it: "catalog_iteration sv cat (importerName imp) (logs_default logs) version key running =
              Inl (RangeError (mismatch_catalog key (first3 running) required (importerName imp)))"
    using a assms by (simp add: catalog_iteration_def)
  have thrown:
    "snd (ensureVersion_catalog sv cat (pre @ (key, running) # post) (Mapping version) logs imp) =
       Inl (RangeError (mismatch_catalog key (first3 running) required (importerName imp)))"
    by (simp add: catalog_present [OF assms] catalog_loop_reach [OF pre] it)
  have short:
    "sublist running (mismatch_catalog key (first3 running) required (importerName imp))"
    if "length (split_on CHR ''.'' running) \<le> 3"
    using mismatch_catalog_mentions [of key "first3 running" required imp]
      first3_short [OF that]
    by simp
  show "\<exists>msg. snd (ensureVersion_catalog sv cat (pre @ (key, running) # post) (Mapping version)
                         logs imp) = Inl (RangeError msg) \<and>
                 sublist key msg \<and> sublist (first3 running) msg \<and> sublist required msg \<and>
                 (\<forall>im. imp = Some im \<longrightarrow> sublist (url im) msg) \<and>
                 (length (split_on CHR ''.'' running) \<le> 3 \<longrightarrow> sublist running msg)"
    using thrown short mismatch_catalog_mentions [of key "first3 running" required imp]
    by (intro exI [of _ "mismatch_catalog key (first3 running) required (importerName imp)"])
      simp
qed

theorem C8_witness:
  "map_of [(''deno'', ''>=1.8.0''), (''v8'', ''8.3.102'')] ''v8'' = Some ''8.3.102'' \<and>
   snd (ensureVersion_simple semver_std example_url
          [(''deno'', ''1.9.4''), (''typescript'', ''4.5.2'')]
          (Mapping [(''deno'', ''>=1.8.0''), (''v8'', ''8.3.102'')]) None) = Inr () \<and>
   satisfies semver_std (first3 ''9.9.115.7'') ''8.3.102'' = Inr False \<and>
   (\<exists>msg. snd (ensureVersion_simple semver_std example_url
                 ([(''deno'', ''1.9.4''), (''typescript'', ''4.5.2'')] @
                  (''v8'', ''9.9.115.7'') # [])
                 (Mapping [(''deno'', ''>=1.8.0''), (''v8'', ''8.3.102'')]) None)
               = Inl (RangeError msg) \<and>
          sublist ''v8'' msg \<and> sublist ''9.9.115'' msg \<and> sublist ''8.3.102'' msg \<and>
          sublist example_url msg) \<and>
   map_of [(''deno'', ''1.9.3'')] ''deno'' = Some ''1.9.3'' \<and>
   snd (ensureVersion_catalog semver_std example_releases [] (Mapping [(''deno'', ''1.9.3'')])
          None (Some example_importer)) = Inr () \<and>
   satisfies semver_std (first3 ''1.9.4'') (first3 ''1.9.3'') = Inr False \<and>
   length (split_on CHR ''.'' ''1.9.4'') \<le> 3 \<and>
   (\<exists>msg. snd (ensureVersion_catalog semver_std example_releases
                 ([] @ (''deno'', ''1.9.4'') # [(''typescript'', ''4.5.2''), (''v8'', ''9.9.115.7'')])
                 (Mapping [(''deno'', ''1.9.3'')]) None (Some example_importer))
               = Inl (RangeError msg) \<and>
          sublist ''deno'' msg \<and> sublist ''1.9.4'' msg \<and> sublist ''1.9.3'' msg \<and>
          sublist (url example_importer) msg)"
proof -
  let ?V = "[(''deno'', ''>=1.8.0''), (''v8'', ''8.3.102'')]"
  let ?pre = "[(''deno'', ''1.9.4''), (''typescript'', ''4.5.2'')]"
  let ?W = "[(''deno'', ''1.9.3'')]"
  let ?post = "[(''typescript'', ''4.5.2''), (''v8'', ''9.9.115.7'')]"
  have h1: "map_of ?V ''v8'' = Some ''8.3.102''" by simp
  have h2: "snd (ensureVersion_simple semver_std example_url ?pre (Mapping ?V) None) = Inr ()"
    by (simp add: run_simple)
  have h3: "satisfies semver_std (first3 ''9.9.115.7'') ''8.3.102'' = Inr False"
    by (simp add: example_first3 example_satisfies)
  have g1: "map_of ?W ''deno'' = Some ''1.9.3''" by simp
  have g2: "snd (ensureVersion_catalog semver_std example_releases [] (Mapping ?W)
                   None (Some example_importer)) = Inr ()"
    by (simp add: ensureVersion_catalog_def catalog_checks_def Object_keys_def)
  have g3: "satisfies semver_std (first3 ''1.9.4'') (first3 ''1.9.3'') = Inr False"
    by (simp add: example_first3 example_satisfies)
  have g4: "length (split_on CHR ''.'' ''1.9.4'') \<le> 3" by simp
  have k: "''deno'' \<noteq> ''typescript''" "''deno'' \<noteq> ''v8''" by simp_all
  from C8_mismatch_message
         [OF h1, where sv = semver_std and u = example_url and pre = ?pre
            and logs = None and running = "''9.9.115.7''" and post = "[]"]
       h2 h3
  have s: "\<exists>msg. snd (ensureVersion_simple semver_std example_url
                 (?pre @ (''v8'', ''9.9.115.7'') # []) (Mapping ?V) None)
               = Inl (RangeError msg) \<and>
          sublist ''v8'' msg \<and> sublist (first3 ''9.9.115.7'') msg \<and>
          sublist ''8.3.102'' msg \<and> sublist example_url msg"
    by blast
  from C8_mismatch_message
         [OF g1, where sv = semver_std and cat = example_releases and pre = "[]"
            and logs = None and running = "''1.9.4''" and post = ?post
            and imp = "Some example_importer"]
       g2 g3 g4 k
  have c: "\<exists>msg. snd (ensureVersion_catalog semver_std example_releases
                 ([] @ (''deno'', ''1.9.4'') # ?post) (Mapping ?W) None (Some example_importer))
               = Inl (RangeError msg) \<and>
          sublist ''deno'' msg \<and> sublist ''1.9.4'' msg \<and> sublist ''1.9.3'' msg \<and>
          (\<forall>im. Some example_importer = Some im \<longrightarrow> sublist (url im) msg)"
    by blast
  from s c h1 h2 h3 g1 g2 g3 g4 show ?thesis
    by (simp add: example_first3)
qed

text \<open>
  C9. In the simple variant, let the iteration for a key be reached, the requirement for
  it be satisfied, and \<^verbatim>\<open>semver.major\<close> and \<^verbatim>\<open>semver.minor\<close> return on the running
  version. If the minor exceeds 100 the call throws the \<^verbatim>\<open>RangeError\<close> of
  \<^verbatim>\<open>new Array\<close> with a negative length, whatever \<^verbatim>\<open>logs\<close> is. If the patch exceeds 500
  and line 109 is reached (\<^verbatim>\<open>maxMinor\<close> returned, and it was false or \<^verbatim>\<open>logs\<close> is false),
  the call throws the same error. \<^verbatim>\<open>maxMinor\<close> returns only if the minor is at most 100,
  and \<^verbatim>\<open>maxPatch\<close> only if the patch is at most 500.
\<close>

theorem C9_advisory_helpers_partial:
  assumes "map_of version key = Some required"
    and "snd (ensureVersion_simple sv u pre (Mapping version) logs) = Inr ()"
    and "satisfies sv (first3 running) required = Inr True"
    and "major sv (first3 running) = Inr ma"
    and "minor sv (first3 running) = Inr mi"
  shows "(100 < mi \<longrightarrow>
            snd (ensureVersion_simple sv u (pre @ (key, running) # post) (Mapping version) logs)
              = Inl (RangeError ''Invalid array length'')) \<and>
         (patch sv (first3 running) = Inr pa \<and> 500 < pa \<and>
          maxMinor sv (first3 running) required = Inr mm \<and> \<not> (mm \<and> logs_default logs) \<longrightarrow>
            snd (ensureVersion_simple sv u (pre @ (key, running) # post) (Mapping version) logs)
              = Inl (RangeError ''Invalid array length'')) \<and>
         ((\<exists>b. maxMinor sv (first3 running) required = Inr b) \<longrightarrow> mi \<le> 100) \<and>
         ((\<exists>b. maxPatch sv (first3 running) required = Inr b) \<and>
          patch sv (first3 running) = Inr pa \<longrightarrow> pa \<le> 500)"
proof -
  let ?o = "first3 running"
  let ?l = "logs_default logs"
  have pre: "snd (simple_loop sv u ?l version pre) = Inr ()"
    using assms(2) by (simp add: simple_present [OF assms(1)])
  have run: "snd (ensureVersion_simple sv u (pre @ (key, running) # post) (Mapping version) logs) =
             (case simple_iteration sv u ?l version key running of
                Inl e \<Rightarrow> Inl e
              | Inr calls \<Rightarrow> snd (simple_loop sv u ?l version post))"
    by (simp add: simple_present [OF assms(1)] simple_loop_reach [OF pre])
  have a: "simple_iteration sv u ?l version key running = Inl (RangeError ''Invalid array length'')"
    if "100 < mi"
    using assms(1,3) maxMinor_over [OF assms(4,5) that]
    by (simp add: simple_iteration_def)
  have b: "simple_iteration sv u ?l version key running = Inl (RangeError ''Invalid array length'')"
    if "patch sv ?o = Inr pa" "500 < pa" "maxMinor sv ?o required = Inr mm" "\<not> (mm \<and> ?l)"
    using assms(1,3) that(3,4) maxPatch_over [OF assms(4,5) that(1,2)]
    by (auto simp: simple_iteration_def Let_def)
  have c: "mi \<le> 100" if "\<exists>b. maxMinor sv ?o required = Inr b"
    using that maxMinor_returns [OF assms(5)] by blast
  have d: "pa \<le> 500" if "\<exists>b. maxPatch sv ?o required = Inr b" "patch sv ?o = Inr pa"
    using that maxPatch_returns by blast
  from a b c d show ?thesis by (simp add: run)
qed

theorem C9_witness:
  "map_of [(''deno'', ''>=1.0.0'')] ''deno'' = Some ''>=1.0.0'' \<and>
   snd (ensureVersion_simple semver_std example_url [] (Mapping [(''deno'', ''>=1.0.0'')]) None)
     = Inr () \<and>
   satisfies semver_std (first3 ''1.101.0'') ''>=1.0.0'' = Inr True \<and>
   major semver_std (first3 ''1.101.0'') = Inr 1 \<and>
   minor semver_std (first3 ''1.101.0'') = Inr 101 \<and> (100::nat) < 101 \<and>
   snd (ensureVersion_simple semver_std example_url
          ([] @ (''deno'', ''1.101.0'') # [(''typescript'', ''4.5.2'')])
          (Mapping [(''deno'', ''>=1.0.0'')]) None)
     = Inl (RangeError ''Invalid array length'') \<and>
   patch semver_std (first3 ''1.9.501'') = Inr 501 \<and> (500::nat) < 501 \<and>
   maxMinor semver_std (first3 ''1.9.501'') ''>=1.8.0'' = Inr True \<and>
   \<not> (True \<and> logs_default (Some False)) \<and>
   snd (ensureVersion_simple semver_std example_url
          ([] @ (''deno'', ''1.9.501'') # [(''typescript'', ''4.5.2'')])
          (Mapping [(''deno'', ''>=1.8.0'')]) (Some False))
     = Inl (RangeError ''Invalid array length'')"
proof -
  let ?post = "[(''typescript'', ''4.5.2'')]"
  have h1: "map_of [(''deno'', ''>=1.0.0'')] ''deno'' = Some ''>=1.0.0''" by simp
  have h2: "snd (ensureVersion_simple semver_std example_url [] (Mapping [(''deno'', ''>=1.0.0'')])
                   None) = Inr ()"
    by (simp add: ensureVersion_simple_def simple_checks_def Object_keys_def)
  have h3: "satisfies semver_std (first3 ''1.101.0'') ''>=1.0.0'' = Inr True"
    and h4: "major semver_std (first3 ''1.101.0'') = Inr 1"
    and h5: "minor semver_std (first3 ''1.101.0'') = Inr 101"
    by (simp_all add: example_first3 example_satisfies example_parts)
  have g1: "map_of [(''deno'', ''>=1.8.0'')] ''deno'' = Some ''>=1.8.0''" by simp
  have g2: "snd (ensureVersion_simple semver_std example_url [] (Mapping [(''deno'', ''>=1.8.0'')])
                   (Some False)) = Inr ()"
    by (simp add: ensureVersion_simple_def simple_checks_def Object_keys_def)
  have g3: "satisfies semver_std (first3 ''1.9.501'') ''>=1.8.0'' = Inr True"
    and g4: "major semver_std (first3 ''1.9.501'') = Inr 1"
    and g5: "minor semver_std (first3 ''1.9.501'') = Inr 9"
    and g6: "patch semver_std (first3 ''1.9.501'') = Inr 501"
    and g7: "maxMinor semver_std (first3 ''1.9.501'') ''>=1.8.0'' = Inr True"
    by (simp_all add: example_first3 example_satisfies example_parts example_maxMinor)
  have g8: "\<not> (True \<and> logs_default (Some False))" by (simp add: logs_default_def)
  from C9_advisory_helpers_partial [OF h1 h2 h3 h4 h5, where post = ?post]
  have a: "snd (ensureVersion_simple semver_std example_url
          ([] @ (''deno'', ''1.101.0'') # ?post) (Mapping [(''deno'', ''>=1.0.0'')]) None)
     = Inl (RangeError ''Invalid array length'')"
    by simp
  from C9_advisory_helpers_partial
         [OF g1 g2 g3 g4 g5, where pa = 501 and mm = True and post = ?post] g6 g7 g8
  have b: "snd (ensureVersion_simple semver_std example_url
          ([] @ (''deno'', ''1.9.501'') # ?post) (Mapping [(''deno'', ''>=1.8.0'')]) (Some False))
     = Inl (RangeError ''Invalid array length'')"
    by simp
  from a b h1 h2 h3 h4 h5 g6 g7 g8 show ?thesis by simp
qed

text \<open>
  C10. The caller's mapping lives at an allocated address of the store. After a call of
  either variant, with any argument, every allocated object is what it was before the call,
  whether the call returned or threw; the only change to the store is the new object that
  a string argument is wrapped in.
\<close>

theorem C10_caller_object_unchanged:
  assumes "a < next_free st"
  shows "cells (fst (ensureVersion_simple_ref sv u dv st version logs)) a = cells st a \<and>
         cells (fst (ensureVersion_catalog_ref sv cat dv st version logs imp)) a = cells st a \<and>
         next_free st \<le> next_free (fst (ensureVersion_simple_ref sv u dv st version logs)) \<and>
         next_free st \<le> next_free (fst (ensureVersion_catalog_ref sv cat dv st version logs imp))"
  using assms
  by (cases version)
    (simp_all add: ensureVersion_simple_ref_def ensureVersion_catalog_ref_def alloc_def)

theorem C10_witness:
  "(0::nat) < next_free \<lparr>cells = (\<lambda>a. [(''deno'', ''1.9.3'')]), next_free = 1\<rparr> \<and>
   cells (fst (ensureVersion_simple_ref semver_std example_url example_Deno_version
                 \<lparr>cells = (\<lambda>a. [(''deno'', ''1.9.3'')]), next_free = 1\<rparr> (JObject 0) None)) 0
     = [(''deno'', ''1.9.3'')] \<and>
   snd (snd (ensureVersion_simple_ref semver_std example_url example_Deno_version
                 \<lparr>cells = (\<lambda>a. [(''deno'', ''1.9.3'')]), next_free = 1\<rparr> (JObject 0) None))
     = Inl (RangeError ''deno@1.9.4 not match version 1.9.3 required by file:///ensure_version.ts'')"
proof -
  let ?st = "\<lparr>cells = (\<lambda>a. [(''deno'', ''1.9.3'')]), next_free = 1\<rparr>"
  have h: "(0::nat) < next_free ?st" by simp
  have r: "snd (snd (ensureVersion_simple_ref semver_std example_url example_Deno_version
                 ?st (JObject 0) None))
     = Inl (RangeError ''deno@1.9.4 not match version 1.9.3 required by file:///ensure_version.ts'')"
    by (simp add: ensureVersion_simple_ref_def run_simple)
  from C10_caller_object_unchanged [OF h, of semver_std example_url example_Deno_version
      "JObject 0" None]
  show ?thesis using h r by simp
qed

end
